theory Spec2Isabelle
  imports Main
begin

section \<open>The cache of \<^verbatim>\<open>app/ui/src/cache/cache.ts\<close>\<close>

text \<open>
  The module is asynchronous TypeScript running on one thread. An \<^verbatim>\<open>async\<close>
  method runs synchronously up to its next \<^verbatim>\<open>await\<close>; what it awaits is settled
  later by the runtime. The embedding follows that shape:
  \<^item> every method is cut at its \<^verbatim>\<open>await\<close>s into segments; a segment is a function
    from the object's fields to the new fields and a \<open>step\<close> saying how the segment
    ended (it returned, it threw, it awaits a promise, it awaits a call of the paired
    status entry);
  \<^item> a promise is a number; the resolve and the reject function a promise hands to
    \<^verbatim>\<open>BroadcastPromise.add\<close> are written as that number, and calling them is
    recorded as a settlement \<open>(promise, outcome)\<close>;
  \<^item> an outcome is \<open>Inl err\<close> (rejected) or \<open>Inr res\<close> (fulfilled);
  \<^item> a call of \<^verbatim>\<open>NETWORK\<close> is a \<open>request\<close> handed to the environment, which
    answers with an outcome;
  \<^item> \<^verbatim>\<open>(new Date()).getTime()\<close> is an input: every place that reads the clock
    has a parameter of its own (the readings are integers, milliseconds);
  \<^item> \<^verbatim>\<open>null\<close> and \<^verbatim>\<open>undefined\<close> are \<open>None\<close>;
  \<^item> objects the registry hands out live in a store (a list indexed by reference),
    since the registry and its callers share them.
\<close>

subsection \<open>Staleness thresholds\<close>

definition RELOAD_TIMEOUT :: int where
  "RELOAD_TIMEOUT = 60 * 1000"

definition FORCE_RELOAD_TIMEOUT :: int where
  "FORCE_RELOAD_TIMEOUT = 5 * 1000"

text \<open>The first argument is the clock reading taken by the function.\<close>

definition isReloadTimeout :: "int \<Rightarrow> int \<Rightarrow> bool" where
  "isReloadTimeout now lastUpdated \<longleftrightarrow> now - lastUpdated > RELOAD_TIMEOUT"

definition isForceReloadTimeout :: "int \<Rightarrow> int \<Rightarrow> bool" where
  "isForceReloadTimeout now lastUpdated \<longleftrightarrow> now - lastUpdated > FORCE_RELOAD_TIMEOUT"

subsection \<open>Requests to the transport\<close>

datatype request =
    NETWORK_getRuns "string option"
  | NETWORK_getSessions
  | NETWORK_getRun string
  | NETWORK_getSession string
  | NETWORK_getRunStatus string
  | NETWORK_getSessionStatus string
  | NETWORK_getUser
  | NETWORK_getAnalysis string string
  | NETWORK_getPreferences string string
  | NETWORK_deleteRuns "string list"
  | NETWORK_deleteSessions "string list"

subsection \<open>How a segment of an async method ends\<close>

datatype ('e, 'v) step =
    Return "'v option"
  | Throw 'e
  | Await nat
  | AwaitStatus bool

subsection \<open>BroadcastPromise\<close>

record broadcast_promise =
  isLoading :: bool
  resolvers :: "nat list"
  rejectors :: "nat list"

definition BroadcastPromise :: broadcast_promise where
  "BroadcastPromise = \<lparr>isLoading = False, resolvers = [], rejectors = []\<rparr>"

definition BroadcastPromise_add :: "nat \<Rightarrow> broadcast_promise \<Rightarrow> broadcast_promise" where
  "BroadcastPromise_add p b =
     (let b1 = b\<lparr>resolvers := resolvers b @ [p]\<rparr>
      in b1\<lparr>rejectors := rejectors b1 @ [p]\<rparr>)"

text \<open>
  \<open>create p load b\<close>: \<open>p\<close> is the promise the call makes and returns, \<open>load\<close> the
  function it is given. The first component is \<open>Some load\<close> when \<open>load\<close> is invoked
  and \<open>None\<close> when it is dropped because a load is running.
\<close>

definition BroadcastPromise_create ::
  "nat \<Rightarrow> 'l \<Rightarrow> broadcast_promise \<Rightarrow> 'l option \<times> broadcast_promise" where
  "BroadcastPromise_create p load b =
     (let b1 = BroadcastPromise_add p b
      in if \<not> isLoading b1 then (Some load, b1\<lparr>isLoading := True\<rparr>) else (None, b1))"

definition BroadcastPromise_resolve ::
  "'v \<Rightarrow> broadcast_promise \<Rightarrow> (nat \<times> ('e + 'v)) list \<times> broadcast_promise" where
  "BroadcastPromise_resolve res b =
     (let b1 = b\<lparr>isLoading := False\<rparr>;
          rs = resolvers b1;
          b2 = b1\<lparr>resolvers := []\<rparr>;
          b3 = b2\<lparr>rejectors := []\<rparr>
      in (map (\<lambda>r. (r, Inr res)) rs, b3))"

definition BroadcastPromise_reject ::
  "'e \<Rightarrow> broadcast_promise \<Rightarrow> (nat \<times> ('e + 'v)) list \<times> broadcast_promise" where
  "BroadcastPromise_reject err b =
     (let b1 = b\<lparr>isLoading := False\<rparr>;
          rs = rejectors b1;
          b2 = b1\<lparr>resolvers := []\<rparr>;
          b3 = b2\<lparr>rejectors := []\<rparr>
      in (map (\<lambda>r. (r, Inl err)) rs, b3))"

text \<open>
  The two handlers \<^verbatim>\<open>create\<close> chains on the promise of \<^verbatim>\<open>load()\<close>: a fulfilled
  load runs \<^verbatim>\<open>resolve\<close>, a rejected one runs \<^verbatim>\<open>reject\<close>.
\<close>

definition BroadcastPromise_settle ::
  "'e + 'v \<Rightarrow> broadcast_promise \<Rightarrow> (nat \<times> ('e + 'v)) list \<times> broadcast_promise" where
  "BroadcastPromise_settle outcome b =
     (case outcome of
        Inr res \<Rightarrow> BroadcastPromise_resolve res b
      | Inl err \<Rightarrow> BroadcastPromise_reject err b)"

text \<open>
  Calls of \<^verbatim>\<open>create\<close> made one after the other with no settlement between them;
  each call is a pair of its promise and its load function. The result lists the load
  functions that were invoked.
\<close>

fun concurrent_creates ::
  "(nat \<times> 'l) list \<Rightarrow> broadcast_promise \<Rightarrow> 'l list \<times> broadcast_promise" where
  "concurrent_creates [] b = ([], b)"
| "concurrent_creates (c # cs) b =
     (let (started, b1) = BroadcastPromise_create (fst c) (snd c) b;
          (more_started, b2) = concurrent_creates cs b1
      in ((case started of None \<Rightarrow> [] | Some l \<Rightarrow> [l]) @ more_started, b2))"

subsection \<open>CacheObject\<close>

record 'v cache_object =
  lastUpdated :: int
  data :: "'v option"
  broadcastPromise :: broadcast_promise
  lastUsed :: int

definition CacheObject :: "'v cache_object" where
  "CacheObject =
     \<lparr>lastUpdated = 0, data = None, broadcastPromise = BroadcastPromise, lastUsed = 0\<rparr>"

text \<open>
  Every concrete \<^verbatim>\<open>load\<close> is \<^verbatim>\<open>this.broadcastPromise.create(async () => ...)\<close>
  around one request and the construction of the entity from its answer; the outcome
  of that closure is the outcome the environment gives for the request. \<open>load_with\<close>
  is this common body: \<open>p\<close> is the promise \<^verbatim>\<open>create\<close> returns, and the first
  component is the request issued, if one is.
\<close>

definition load_with ::
  "request \<Rightarrow> nat \<Rightarrow> 'v cache_object \<Rightarrow> request option \<times> 'v cache_object" where
  "load_with req p c =
     (let (started, b) = BroadcastPromise_create p req (broadcastPromise c)
      in (started, c\<lparr>broadcastPromise := b\<rparr>))"

text \<open>
  \<^verbatim>\<open>CacheObject.get\<close> up to its \<^verbatim>\<open>await\<close>. \<open>load\<close> is the abstract method;
  \<open>t_force\<close>, \<open>t_reload\<close> and \<open>t_used\<close> are the clock readings of
  \<^verbatim>\<open>isForceReloadTimeout\<close>, of \<^verbatim>\<open>isReloadTimeout\<close> and of the assignment to
  \<^verbatim>\<open>lastUsed\<close>.
\<close>

definition CacheObject_get ::
  "(nat \<Rightarrow> 'v cache_object \<Rightarrow> request option \<times> 'v cache_object) \<Rightarrow> bool \<Rightarrow>
     int \<Rightarrow> int \<Rightarrow> int \<Rightarrow> nat \<Rightarrow> 'v cache_object \<Rightarrow>
     ('e, 'v) step \<times> request option \<times> 'v cache_object" where
  "CacheObject_get load isRefresh t_force t_reload t_used p c =
     (if data c = None \<or> (isRefresh \<and> isForceReloadTimeout t_force (lastUpdated c))
           \<or> isReloadTimeout t_reload (lastUpdated c)
      then (let (started, c1) = load p c in (Await p, started, c1))
      else (let c1 = c\<lparr>lastUsed := t_used\<rparr> in (Return (data c1), None, c1)))"

text \<open>
  The rest of \<^verbatim>\<open>CacheObject.get\<close>, run when the awaited promise settles with
  \<open>outcome\<close>; \<open>t_updated\<close> and \<open>t_used\<close> are the two clock readings.
\<close>

definition CacheObject_get_resume ::
  "'e + 'v \<Rightarrow> int \<Rightarrow> int \<Rightarrow> 'v cache_object \<Rightarrow> ('e, 'v) step \<times> 'v cache_object" where
  "CacheObject_get_resume outcome t_updated t_used c =
     (case outcome of
        Inl err \<Rightarrow> (Throw err, c)
      | Inr res \<Rightarrow>
          (let c1 = c\<lparr>data := Some res\<rparr>;
               c2 = c1\<lparr>lastUpdated := t_updated\<rparr>;
               c3 = c2\<lparr>lastUsed := t_used\<rparr>
           in (Return (data c3), c3)))"


text \<open>
  One call of \<^verbatim>\<open>get\<close> from its start to its end when nothing else runs in
  between: the first segment, then the settlement of the coalescer with the outcome of
  the load in flight, then the second segment with what the call's own promise got.
  \<open>None\<close> stands for a call whose promise is never settled.
\<close>

definition CacheObject_get_alone ::
  "(nat \<Rightarrow> 'v cache_object \<Rightarrow> request option \<times> 'v cache_object) \<Rightarrow> bool \<Rightarrow>
     int \<Rightarrow> int \<Rightarrow> int \<Rightarrow> int \<Rightarrow> nat \<Rightarrow> 'e + 'v \<Rightarrow> 'v cache_object \<Rightarrow>
     (('e, 'v) step \<times> request option \<times> 'v cache_object) option" where
  "CacheObject_get_alone load isRefresh t_force t_reload t_updated t_used p outcome c =
     (case CacheObject_get load isRefresh t_force t_reload t_used p c of
        (Await q, started, c1) \<Rightarrow>
          (let (settled, b) = BroadcastPromise_settle outcome (broadcastPromise c1);
               c2 = c1\<lparr>broadcastPromise := b\<rparr>
           in (case map_of settled q of
                 None \<Rightarrow> None
               | Some mine \<Rightarrow>
                   (let (s, c3) = CacheObject_get_resume mine t_updated t_used c2
                    in Some (s, started, c3))))
      | (s, started, c1) \<Rightarrow> Some (s, started, c1))"

subsection \<open>Concurrent calls of \<^verbatim>\<open>get\<close> on one entry\<close>

text \<open>
  Calls of \<^verbatim>\<open>get\<close> made one after the other before the load in flight settles:
  each call is its \<^verbatim>\<open>isRefresh\<close>, its three clock readings and its promise. The
  result lists how the first segment of each call ended and the requests issued.
\<close>

fun concurrent_gets ::
  "(nat \<Rightarrow> 'v cache_object \<Rightarrow> request option \<times> 'v cache_object) \<Rightarrow>
     (bool \<times> int \<times> int \<times> int \<times> nat) list \<Rightarrow> 'v cache_object \<Rightarrow>
     (nat \<times> ('e, 'v) step) list \<times> request list \<times> 'v cache_object" where
  "concurrent_gets load [] c = ([], [], c)"
| "concurrent_gets load ((isRefresh, t_force, t_reload, t_used, p) # calls) c =
     (let (s, started, c1) = CacheObject_get load isRefresh t_force t_reload t_used p c;
          (ss, more_started, c2) = concurrent_gets load calls c1
      in ((p, s) # ss, (case started of None \<Rightarrow> [] | Some r \<Rightarrow> [r]) @ more_started, c2))"

text \<open>
  The calls whose promises were settled run their second segment, in the order of the
  settlements; \<open>clock p\<close> gives the two clock readings of the call awaiting \<open>p\<close>.
\<close>

fun resume_gets ::
  "(nat \<times> ('e + 'v)) list \<Rightarrow> (nat \<Rightarrow> int \<times> int) \<Rightarrow> 'v cache_object \<Rightarrow>
     (nat \<times> ('e, 'v) step) list \<times> 'v cache_object" where
  "resume_gets [] clock c = ([], c)"
| "resume_gets ((p, outcome) # settled) clock c =
     (let (s, c1) = CacheObject_get_resume outcome (fst (clock p)) (snd (clock p)) c;
          (ss, c2) = resume_gets settled clock c1
      in ((p, s) # ss, c2))"

text \<open>
  The calls, then the settlement of the coalescer with the outcome of the load, then
  the second segments of the settled calls.
\<close>

definition gets_then_settle ::
  "(nat \<Rightarrow> 'v cache_object \<Rightarrow> request option \<times> 'v cache_object) \<Rightarrow>
     (bool \<times> int \<times> int \<times> int \<times> nat) list \<Rightarrow> 'e + 'v \<Rightarrow> (nat \<Rightarrow> int \<times> int) \<Rightarrow>
     'v cache_object \<Rightarrow>
     (nat \<times> ('e, 'v) step) list \<times> request list \<times> (nat \<times> ('e, 'v) step) list \<times> 'v cache_object" where
  "gets_then_settle load calls outcome clock c =
     (let (first, started, c1) = concurrent_gets load calls c;
          (settled, b) = BroadcastPromise_settle outcome (broadcastPromise c1);
          c2 = c1\<lparr>broadcastPromise := b\<rparr>;
          (second, c3) = resume_gets settled clock c2
      in (first, started, second, c3))"

text \<open>The promises of the calls whose first segment ended awaiting the load.\<close>

definition awaiting :: "(nat \<times> ('e, 'v) step) list \<Rightarrow> nat list" where
  "awaiting first = map fst (filter (\<lambda>(p, s). s = Await p) first)"

text \<open>The promise of a call in the list of concurrent calls.\<close>

definition promise_of :: "bool \<times> int \<times> int \<times> int \<times> nat \<Rightarrow> nat" where
  "promise_of k = snd (snd (snd (snd k)))"

subsection \<open>The entries that only add a \<^verbatim>\<open>load\<close>\<close>

definition SessionsListCache_load ::
  "nat \<Rightarrow> 'v cache_object \<Rightarrow> request option \<times> 'v cache_object" where
  "SessionsListCache_load = load_with NETWORK_getSessions"

definition SessionCache_load ::
  "string \<Rightarrow> nat \<Rightarrow> 'v cache_object \<Rightarrow> request option \<times> 'v cache_object" where
  "SessionCache_load uuid = load_with (NETWORK_getSession uuid)"

definition RunStatusCache_load ::
  "string \<Rightarrow> nat \<Rightarrow> 'v cache_object \<Rightarrow> request option \<times> 'v cache_object" where
  "RunStatusCache_load uuid = load_with (NETWORK_getRunStatus uuid)"

definition SessionStatusCache_load ::
  "string \<Rightarrow> nat \<Rightarrow> 'v cache_object \<Rightarrow> request option \<times> 'v cache_object" where
  "SessionStatusCache_load uuid = load_with (NETWORK_getSessionStatus uuid)"

definition UserCache_load ::
  "nat \<Rightarrow> 'v cache_object \<Rightarrow> request option \<times> 'v cache_object" where
  "UserCache_load = load_with NETWORK_getUser"

text \<open>\<^verbatim>\<open>SessionCache\<close> declares no \<^verbatim>\<open>get\<close>: it inherits the one of \<^verbatim>\<open>CacheObject\<close>.\<close>

definition SessionCache_get ::
  "string \<Rightarrow> bool \<Rightarrow> int \<Rightarrow> int \<Rightarrow> int \<Rightarrow> nat \<Rightarrow> 'v cache_object \<Rightarrow>
     ('e, 'v) step \<times> request option \<times> 'v cache_object" where
  "SessionCache_get uuid = CacheObject_get (SessionCache_load uuid)"

definition SessionCache_get_resume ::
  "'e + 'v \<Rightarrow> int \<Rightarrow> int \<Rightarrow> 'v cache_object \<Rightarrow> ('e, 'v) step \<times> 'v cache_object" where
  "SessionCache_get_resume = CacheObject_get_resume"

subsection \<open>RunsListCache and SessionsListCache\<close>

text \<open>
  The models \<^verbatim>\<open>RunsList\<close> and \<^verbatim>\<open>SessionsList\<close> are imported by the module; the
  cache reads and writes their fields \<^verbatim>\<open>runs\<close> and \<^verbatim>\<open>sessions\<close> and the fields
  \<^verbatim>\<open>run_uuid\<close> and \<^verbatim>\<open>session_uuid\<close> of the items. The records below have these
  fields; an item may have any further fields.
\<close>

record RunListItem =
  run_uuid :: string

record 'r RunsList =
  RunsList_runs :: "'r list"

record SessionListItem =
  session_uuid :: string

record 'r SessionsList =
  SessionsList_sessions :: "'r list"

text \<open>
  The rest parameter \<^verbatim>\<open>...args\<close> is a list; \<open>arg0\<close> is \<^verbatim>\<open>args[0]\<close>, which is
  \<^verbatim>\<open>undefined\<close> for an empty list. The filter is a string or \<^verbatim>\<open>null\<close>, and a
  string is truthy when it is not empty.
\<close>

definition arg0 :: "string option list \<Rightarrow> string option" where
  "arg0 args = (case args of [] \<Rightarrow> None | a # _ \<Rightarrow> a)"

definition truthy :: "string option \<Rightarrow> bool" where
  "truthy a = (case a of None \<Rightarrow> False | Some s \<Rightarrow> s \<noteq> [])"

definition RunsListCache_load ::
  "string option list \<Rightarrow> nat \<Rightarrow> 'v cache_object \<Rightarrow> request option \<times> 'v cache_object" where
  "RunsListCache_load args = load_with (NETWORK_getRuns (arg0 args))"

definition RunsListCache_get ::
  "bool \<Rightarrow> string option list \<Rightarrow> int \<Rightarrow> int \<Rightarrow> nat \<Rightarrow> 'v cache_object \<Rightarrow>
     ('e, 'v) step \<times> request option \<times> 'v cache_object" where
  "RunsListCache_get isRefresh args t_force t_reload p c =
     (if truthy (arg0 args)
      then (let (started, c1) = RunsListCache_load [arg0 args] p c in (Await p, started, c1))
      else if data c = None \<or> (isRefresh \<and> isForceReloadTimeout t_force (lastUpdated c))
           \<or> isReloadTimeout t_reload (lastUpdated c)
      then (let (started, c1) = RunsListCache_load [None] p c in (Await p, started, c1))
      else (Return (data c), None, c))"

text \<open>
  The segment after the \<^verbatim>\<open>await\<close>. The arguments of the call say at which of the
  two \<^verbatim>\<open>await\<close>s it was suspended: with a truthy filter the awaited result is
  returned as it is, without one it is stored.
\<close>

definition RunsListCache_get_resume ::
  "string option list \<Rightarrow> 'e + 'v \<Rightarrow> int \<Rightarrow> 'v cache_object \<Rightarrow>
     ('e, 'v) step \<times> 'v cache_object" where
  "RunsListCache_get_resume args outcome t_updated c =
     (case outcome of
        Inl err \<Rightarrow> (Throw err, c)
      | Inr res \<Rightarrow>
          if truthy (arg0 args) then (Return (Some res), c)
          else (let c1 = c\<lparr>data := Some res\<rparr>;
                    c2 = c1\<lparr>lastUpdated := t_updated\<rparr>
                in (Return (data c2), c2)))"

text \<open>
  \<^verbatim>\<open>deleteRuns\<close> up to its \<^verbatim>\<open>await\<close>: the loop over \<^verbatim>\<open>currentRuns\<close> pushes the
  runs to keep; the request is what the segment ends with.
\<close>

definition RunsListCache_deleteRuns ::
  "string list \<Rightarrow> 'a RunListItem_scheme RunsList cache_object \<Rightarrow>
     request \<times> 'a RunListItem_scheme RunsList cache_object" where
  "RunsListCache_deleteRuns runUUIDS c =
     (let c1 =
        (case data c of
           None \<Rightarrow> c
         | Some d \<Rightarrow>
             (let currentRuns = RunsList_runs d;
                  kept = fold (\<lambda>run acc. if run_uuid run \<notin> set runUUIDS then acc @ [run] else acc)
                           currentRuns []
              in c\<lparr>data := Some (d\<lparr>RunsList_runs := kept\<rparr>)\<rparr>))
      in (NETWORK_deleteRuns runUUIDS, c1))"

definition RunsListCache_deleteRuns_resume ::
  "'e + 'w \<Rightarrow> 'v cache_object \<Rightarrow> ('e, unit) step \<times> 'v cache_object" where
  "RunsListCache_deleteRuns_resume outcome c =
     (case outcome of Inl err \<Rightarrow> (Throw err, c) | Inr _ \<Rightarrow> (Return None, c))"

text \<open>
  \<^verbatim>\<open>deleteSessions\<close> takes a \<^verbatim>\<open>Set\<close>, written as the list of its members in
  insertion order (the order of \<^verbatim>\<open>Array.from\<close>).
\<close>

definition SessionsListCache_deleteSessions ::
  "string list \<Rightarrow> 'a SessionListItem_scheme SessionsList cache_object \<Rightarrow>
     request \<times> 'a SessionListItem_scheme SessionsList cache_object" where
  "SessionsListCache_deleteSessions sessionUUIDS c =
     (let c1 =
        (case data c of
           None \<Rightarrow> c
         | Some d \<Rightarrow>
             (let currentSessions = SessionsList_sessions d;
                  kept = fold (\<lambda>session acc.
                             if session_uuid session \<notin> set sessionUUIDS then acc @ [session] else acc)
                           currentSessions []
              in c\<lparr>data := Some (d\<lparr>SessionsList_sessions := kept\<rparr>)\<rparr>))
      in (NETWORK_deleteSessions sessionUUIDS, c1))"

definition SessionsListCache_deleteSessions_resume ::
  "'e + 'w \<Rightarrow> 'v cache_object \<Rightarrow> ('e, unit) step \<times> 'v cache_object" where
  "SessionsListCache_deleteSessions_resume outcome c =
     (case outcome of Inl err \<Rightarrow> (Throw err, c) | Inr _ \<Rightarrow> (Return None, c))"

subsection \<open>RunCache and AnalysisDataCache\<close>

text \<open>
  Of the model \<^verbatim>\<open>Status\<close>, imported by the module, the cache reads
  \<^verbatim>\<open>isRunning\<close>, taken here as a boolean field of the status.
\<close>

record Status =
  isRunning :: bool

definition RunCache_load ::
  "string \<Rightarrow> nat \<Rightarrow> 'v cache_object \<Rightarrow> request option \<times> 'v cache_object" where
  "RunCache_load uuid = load_with (NETWORK_getRun uuid)"

text \<open>
  \<^verbatim>\<open>RunCache.get\<close> has three \<^verbatim>\<open>await\<close>s, so four segments. The first one calls
  \<^verbatim>\<open>this.statusCache.get()\<close> and awaits it.
\<close>

definition RunCache_get :: "bool \<Rightarrow> 'v cache_object \<Rightarrow> ('e, 'v) step \<times> 'v cache_object" where
  "RunCache_get isRefresh c = (AwaitStatus False, c)"

text \<open>
  The second segment runs when the status call has settled with \<open>status_outcome\<close>;
  \<open>t_reload\<close> and \<open>t_force\<close> are the clock readings of the two timeout functions.
\<close>

definition RunCache_get_status ::
  "string \<Rightarrow> bool \<Rightarrow> 'e + 's Status_scheme \<Rightarrow> int \<Rightarrow> int \<Rightarrow> nat \<Rightarrow> 'v cache_object \<Rightarrow>
     ('e, 'v) step \<times> request option \<times> 'v cache_object" where
  "RunCache_get_status uuid isRefresh status_outcome t_reload t_force p c =
     (case status_outcome of
        Inl err \<Rightarrow> (Throw err, None, c)
      | Inr status \<Rightarrow>
          if data c = None \<or> (isRunning status \<and> isReloadTimeout t_reload (lastUpdated c))
             \<or> (isRefresh \<and> isForceReloadTimeout t_force (lastUpdated c))
          then (let (started, c1) = RunCache_load uuid p c in (Await p, started, c1))
          else (Return (data c), None, c))"

text \<open>
  The third segment runs when the load has settled; \<open>t_updated\<close> is the reading stored
  in \<^verbatim>\<open>lastUpdated\<close>, \<open>t_reload\<close> the one \<^verbatim>\<open>isReloadTimeout\<close> takes after it.
\<close>

definition RunCache_get_loaded ::
  "bool \<Rightarrow> 's Status_scheme \<Rightarrow> 'e + 'v \<Rightarrow> int \<Rightarrow> int \<Rightarrow> 'v cache_object \<Rightarrow>
     ('e, 'v) step \<times> 'v cache_object" where
  "RunCache_get_loaded isRefresh status outcome t_updated t_reload c =
     (case outcome of
        Inl err \<Rightarrow> (Throw err, c)
      | Inr res \<Rightarrow>
          (let c1 = c\<lparr>data := Some res\<rparr>;
               c2 = c1\<lparr>lastUpdated := t_updated\<rparr>
           in if (isRunning status \<and> isReloadTimeout t_reload (lastUpdated c2)) \<or> isRefresh
              then (AwaitStatus True, c2)
              else (Return (data c2), c2)))"

text \<open>The fourth segment runs when \<^verbatim>\<open>this.statusCache.get(true)\<close> has settled.\<close>

definition RunCache_get_cascaded ::
  "'e + 'w \<Rightarrow> 'v cache_object \<Rightarrow> ('e, 'v) step \<times> 'v cache_object" where
  "RunCache_get_cascaded status_outcome c =
     (case status_outcome of Inl err \<Rightarrow> (Throw err, c) | Inr _ \<Rightarrow> (Return (data c), c))"

definition AnalysisDataCache_load ::
  "string \<Rightarrow> string \<Rightarrow> nat \<Rightarrow> 'v cache_object \<Rightarrow> request option \<times> 'v cache_object" where
  "AnalysisDataCache_load uuid url = load_with (NETWORK_getAnalysis url uuid)"

definition AnalysisDataCache_get ::
  "bool \<Rightarrow> 'v cache_object \<Rightarrow> ('e, 'v) step \<times> 'v cache_object" where
  "AnalysisDataCache_get isRefresh c = (AwaitStatus False, c)"

definition AnalysisDataCache_get_status ::
  "string \<Rightarrow> string \<Rightarrow> bool \<Rightarrow> 'e + 's Status_scheme \<Rightarrow> int \<Rightarrow> int \<Rightarrow> nat \<Rightarrow>
     'v cache_object \<Rightarrow> ('e, 'v) step \<times> request option \<times> 'v cache_object" where
  "AnalysisDataCache_get_status uuid url isRefresh status_outcome t_reload t_force p c =
     (case status_outcome of
        Inl err \<Rightarrow> (Throw err, None, c)
      | Inr status \<Rightarrow>
          if data c = None \<or> (isRunning status \<and> isReloadTimeout t_reload (lastUpdated c))
             \<or> (isRefresh \<and> isForceReloadTimeout t_force (lastUpdated c))
          then (let (started, c1) = AnalysisDataCache_load uuid url p c in (Await p, started, c1))
          else (Return (data c), None, c))"

definition AnalysisDataCache_get_loaded ::
  "bool \<Rightarrow> 's Status_scheme \<Rightarrow> 'e + 'v \<Rightarrow> int \<Rightarrow> int \<Rightarrow> 'v cache_object \<Rightarrow>
     ('e, 'v) step \<times> 'v cache_object" where
  "AnalysisDataCache_get_loaded isRefresh status outcome t_updated t_reload c =
     (case outcome of
        Inl err \<Rightarrow> (Throw err, c)
      | Inr res \<Rightarrow>
          (let c1 = c\<lparr>data := Some res\<rparr>;
               c2 = c1\<lparr>lastUpdated := t_updated\<rparr>
           in if (isRunning status \<and> isReloadTimeout t_reload (lastUpdated c2)) \<or> isRefresh
              then (AwaitStatus True, c2)
              else (Return (data c2), c2)))"

definition AnalysisDataCache_get_cascaded ::
  "'e + 'w \<Rightarrow> 'v cache_object \<Rightarrow> ('e, 'v) step \<times> 'v cache_object" where
  "AnalysisDataCache_get_cascaded status_outcome c =
     (case status_outcome of Inl err \<Rightarrow> (Throw err, c) | Inr _ \<Rightarrow> (Return (data c), c))"

subsection \<open>The registry \<^verbatim>\<open>Cache\<close>\<close>

text \<open>
  The four dictionaries of the registry are plain JavaScript objects made by \<^verbatim>\<open>{}\<close>:
  their prototype is \<^verbatim>\<open>Object.prototype\<close>. Reading \<^verbatim>\<open>dict[key]\<close> gives the own
  property of that name if there is one, else the property \<^verbatim>\<open>Object.prototype\<close> has
  under that name, else \<^verbatim>\<open>undefined\<close>. The names below are the properties of
  \<^verbatim>\<open>Object.prototype\<close> in the language standard (with its annex for browsers); the
  value of each is a function or, for \<^verbatim>\<open>__proto__\<close>, an object, so none is null.
\<close>

definition Object_prototype_keys :: "string list" where
  "Object_prototype_keys =
     [''constructor'', ''__defineGetter__'', ''__defineSetter__'', ''hasOwnProperty'',
      ''__lookupGetter__'', ''__lookupSetter__'', ''isPrototypeOf'', ''propertyIsEnumerable'',
      ''toString'', ''valueOf'', ''__proto__'', ''toLocaleString'']"

text \<open>
  What a read of a dictionary gives when it is not null: the reference of a cache
  entry stored there, or the member of \<^verbatim>\<open>Object.prototype\<close> of the given name.
\<close>

datatype property = Entry nat | Inherited string


definition get_property :: "(string \<rightharpoonup> nat) \<Rightarrow> string \<Rightarrow> property option" where
  "get_property d key =
     (case d key of
        Some a \<Rightarrow> Some (Entry a)
      | None \<Rightarrow> if key \<in> set Object_prototype_keys then Some (Inherited key) else None)"

text \<open>
  An object of the store is its class, with the arguments its constructor was given
  (the uuid; for a \<^verbatim>\<open>RunCache\<close> also what \<^verbatim>\<open>getRunStatus\<close> returned), and the
  fields of \<^verbatim>\<open>CacheObject\<close>. A reference is an index of the store, and
  \<^verbatim>\<open>new\<close> appends.
\<close>

datatype cls =
    RunCache string property
  | SessionCache string
  | RunStatusCache string
  | SessionStatusCache string
  | UserCache
  | RunsListCache
  | SessionsListCache

type_synonym 'v store = "(cls \<times> 'v cache_object) list"

record registry =
  runs :: "string \<rightharpoonup> nat"
  sessions :: "string \<rightharpoonup> nat"
  runStatuses :: "string \<rightharpoonup> nat"
  sessionStatuses :: "string \<rightharpoonup> nat"
  user :: "nat option"
  runsList :: "nat option"
  sessionsList :: "nat option"


definition new_object :: "cls \<Rightarrow> 'v store \<Rightarrow> nat \<times> 'v store" where
  "new_object k h = (length h, h @ [(k, CacheObject)])"




definition Cache_getSession ::
  "string \<Rightarrow> registry \<times> 'v store \<Rightarrow> property \<times> registry \<times> 'v store" where
  "Cache_getSession uuid = (\<lambda>(C, h).
     (case get_property (sessions C) uuid of
        None \<Rightarrow>
          (let (a, h1) = new_object (SessionCache uuid) h;
               C1 = C\<lparr>sessions := (sessions C)(uuid \<mapsto> a)\<rparr>
           in (Entry a, C1, h1))
      | Some v \<Rightarrow> (v, C, h)))"





text \<open>
  A call \<^verbatim>\<open>entry.get(isRefresh, ...args)\<close> through a reference, up to its first
  \<^verbatim>\<open>await\<close>: the method is the one of the object's class, and the object's fields
  are written back to the store.
\<close>

definition call_get ::
  "nat \<Rightarrow> bool \<Rightarrow> string option list \<Rightarrow> int \<Rightarrow> int \<Rightarrow> int \<Rightarrow> nat \<Rightarrow> 'v store \<Rightarrow>
     ('e, 'v) step \<times> request option \<times> 'v store" where
  "call_get a isRefresh args t_force t_reload t_used p h =
     (let (k, c) = h ! a;
          (s, started, c1) =
            (case k of
               RunCache uuid status_ref \<Rightarrow>
                 (let (s, c1) = RunCache_get isRefresh c in (s, None, c1))
             | SessionCache uuid \<Rightarrow> SessionCache_get uuid isRefresh t_force t_reload t_used p c
             | RunStatusCache uuid \<Rightarrow>
                 CacheObject_get (RunStatusCache_load uuid) isRefresh t_force t_reload t_used p c
             | SessionStatusCache uuid \<Rightarrow>
                 CacheObject_get (SessionStatusCache_load uuid) isRefresh t_force t_reload t_used p c
             | UserCache \<Rightarrow> CacheObject_get UserCache_load isRefresh t_force t_reload t_used p c
             | RunsListCache \<Rightarrow> RunsListCache_get isRefresh args t_force t_reload p c
             | SessionsListCache \<Rightarrow>
                 CacheObject_get SessionsListCache_load isRefresh t_force t_reload t_used p c)
      in (s, started, h[a := (k, c1)]))"

text \<open>
  The segment of that call that runs when the promise of its load has settled. A
  \<^verbatim>\<open>RunCache\<close> awaits its status entry first, and its later segments are the
  functions above, which take the status; for it the result is \<open>None\<close>.
\<close>

definition call_get_resume ::
  "nat \<Rightarrow> string option list \<Rightarrow> 'e + 'v \<Rightarrow> int \<Rightarrow> int \<Rightarrow> 'v store \<Rightarrow>
     (('e, 'v) step \<times> 'v store) option" where
  "call_get_resume a args outcome t_updated t_used h =
     (let (k, c) = h ! a
      in (case k of
            RunCache uuid status_ref \<Rightarrow> None
          | RunsListCache \<Rightarrow>
              (let (s, c1) = RunsListCache_get_resume args outcome t_updated c
               in Some (s, h[a := (k, c1)]))
          | _ \<Rightarrow>
              (let (s, c1) = CacheObject_get_resume outcome t_updated t_used c
               in Some (s, h[a := (k, c1)]))))"


section \<open>Properties\<close>

subsection \<open>The coalescer\<close>

lemma concurrent_creates_eq:
  "concurrent_creates calls b =
     ((if isLoading b then [] else take 1 (map snd calls)),
      b\<lparr>isLoading := isLoading b \<or> calls \<noteq> [],
        resolvers := resolvers b @ map fst calls,
        rejectors := rejectors b @ map fst calls\<rparr>)"
proof (induction calls arbitrary: b)
  case Nil
  show ?case by simp
next
  case (Cons c cs)
  show ?case
    by (simp add: Cons.IH BroadcastPromise_create_def BroadcastPromise_add_def Let_def)
qed

text \<open>
  Claim C1. Take a coalescer in its initial state and at least one call of
  \<^verbatim>\<open>create\<close>, the calls made one after the other before the load settles. Then
  exactly one load function is invoked, the one of the first call. When the load
  settles with an outcome (fulfilled or rejected), every call's promise is settled with
  that same outcome, in the order of the calls, and the coalescer is back in its
  initial state: not loading, both waiter lists empty. The next \<^verbatim>\<open>create\<close> after the
  settlement invokes its load function again and is the only waiter of the new cycle.
\<close>

theorem coalescing_one_load_same_outcome_then_reset:
  fixes outcome :: "'e + 'v" and l :: 'l
  assumes "calls \<noteq> []"
  shows "fst (concurrent_creates calls BroadcastPromise) = [snd (hd calls)] \<and>
    BroadcastPromise_settle outcome (snd (concurrent_creates calls BroadcastPromise))
        = (map (\<lambda>c. (fst c, outcome)) calls,
           \<lparr>isLoading = False, resolvers = [], rejectors = []\<rparr>) \<and>
    BroadcastPromise_create p l
        (snd (BroadcastPromise_settle outcome (snd (concurrent_creates calls BroadcastPromise))))
        = (Some l, \<lparr>isLoading = True, resolvers = [p], rejectors = [p]\<rparr>)"
proof -
  obtain c cs where calls: "calls = c # cs"
    using assms by (cases calls) auto
  have started: "fst (concurrent_creates calls BroadcastPromise) = [snd (hd calls)]"
    by (simp add: concurrent_creates_eq BroadcastPromise_def calls)
  have settled: "BroadcastPromise_settle outcome (snd (concurrent_creates calls BroadcastPromise))
        = (map (\<lambda>c. (fst c, outcome)) calls,
           \<lparr>isLoading = False, resolvers = [], rejectors = []\<rparr>)"
    by (cases outcome)
      (simp_all add: concurrent_creates_eq BroadcastPromise_def BroadcastPromise_settle_def
        BroadcastPromise_resolve_def BroadcastPromise_reject_def Let_def)
  have again: "BroadcastPromise_create p l \<lparr>isLoading = False, resolvers = [], rejectors = []\<rparr>
      = (Some l, \<lparr>isLoading = True, resolvers = [p], rejectors = [p]\<rparr>)"
    by (simp add: BroadcastPromise_create_def BroadcastPromise_add_def Let_def)
  show ?thesis
    using started settled again by simp
qed

text \<open>
  Claim C1 at an instance. Three concurrent calls whose load is rejected: one load runs, the three promises are
  rejected with the same error, and a fourth call starts a load of its own.
\<close>

theorem coalescing_three_calls_rejected:
  "fst (concurrent_creates [(1, ''a''), (2, ''b''), (3, ''c'')] BroadcastPromise) = [''a''] \<and>
   BroadcastPromise_settle (Inl ''boom'' :: string + nat)
       (snd (concurrent_creates [(1, ''a''), (2, ''b''), (3, ''c'')] BroadcastPromise))
     = ([(1, Inl ''boom''), (2, Inl ''boom''), (3, Inl ''boom'')],
        \<lparr>isLoading = False, resolvers = [], rejectors = []\<rparr>) \<and>
   BroadcastPromise_create 4 ''d''
       (snd (BroadcastPromise_settle (Inl ''boom'' :: string + nat)
          (snd (concurrent_creates [(1, ''a''), (2, ''b''), (3, ''c'')] BroadcastPromise))))
     = (Some ''d'', \<lparr>isLoading = True, resolvers = [4], rejectors = [4]\<rparr>)"
proof -
  have calls: "[(1::nat, ''a''), (2, ''b''), (3, ''c'')] \<noteq> []"
    by simp
  note run = coalescing_one_load_same_outcome_then_reset
    [OF calls, of "Inl ''boom'' :: string + nat" 4 "''d''"]
  from run [THEN conjunct1] run [THEN conjunct2, THEN conjunct1]
    run [THEN conjunct2, THEN conjunct2]
  show ?thesis
    by (simp del: concurrent_creates.simps)
qed

subsection \<open>Closed forms of the segments\<close>

lemma map_of_same_outcome:
  "map_of (map (\<lambda>r. (r, x)) rs) p = (if p \<in> set rs then Some x else None)"
  by (induction rs) auto

lemma settle_eq:
  "BroadcastPromise_settle outcome b =
     (map (\<lambda>r. (r, outcome)) (case outcome of Inl _ \<Rightarrow> rejectors b | Inr _ \<Rightarrow> resolvers b),
      \<lparr>isLoading = False, resolvers = [], rejectors = []\<rparr>)"
  by (cases outcome)
    (simp_all add: BroadcastPromise_settle_def BroadcastPromise_resolve_def
      BroadcastPromise_reject_def Let_def)

lemma load_with_eq:
  "load_with req p c =
     ((if isLoading (broadcastPromise c) then None else Some req),
      c\<lparr>broadcastPromise :=
          \<lparr>isLoading = True,
           resolvers = resolvers (broadcastPromise c) @ [p],
           rejectors = rejectors (broadcastPromise c) @ [p]\<rparr>\<rparr>)"
  by (simp add: load_with_def BroadcastPromise_create_def BroadcastPromise_add_def Let_def)

lemma CacheObject_get_eq:
  "CacheObject_get load isRefresh t_force t_reload t_used p c =
     (if data c = None \<or> t_reload - lastUpdated c > 60000
         \<or> (isRefresh \<and> t_force - lastUpdated c > 5000)
      then (Await p, load p c)
      else (Return (data c), None, c\<lparr>lastUsed := t_used\<rparr>))"
  by (auto simp add: CacheObject_get_def isReloadTimeout_def isForceReloadTimeout_def
      RELOAD_TIMEOUT_def FORCE_RELOAD_TIMEOUT_def Let_def split: prod.splits)

lemma CacheObject_get_alone_eq:
  "CacheObject_get_alone (load_with req) isRefresh t_force t_reload t_updated t_used p outcome c =
     Some (if data c = None \<or> t_reload - lastUpdated c > 60000
              \<or> (isRefresh \<and> t_force - lastUpdated c > 5000)
           then (case outcome of
                   Inl err \<Rightarrow>
                     (Throw err, (if isLoading (broadcastPromise c) then None else Some req),
                      c\<lparr>broadcastPromise := BroadcastPromise\<rparr>)
                 | Inr res \<Rightarrow>
                     (Return (Some res), (if isLoading (broadcastPromise c) then None else Some req),
                      c\<lparr>data := Some res, lastUpdated := t_updated, lastUsed := t_used,
                        broadcastPromise := BroadcastPromise\<rparr>))
           else (Return (data c), None, c\<lparr>lastUsed := t_used\<rparr>))"
  by (cases outcome)
    (simp_all add: CacheObject_get_alone_def CacheObject_get_eq load_with_eq settle_eq
      map_of_same_outcome CacheObject_get_resume_def BroadcastPromise_def Let_def)

subsection \<open>The base entry\<close>

text \<open>
  Claim C2. \<^verbatim>\<open>CacheObject.get(isRefresh)\<close> invokes \<^verbatim>\<open>load\<close> exactly when the
  cached data is absent, or the reading of \<^verbatim>\<open>isReloadTimeout\<close> is more than
  \<open>RELOAD_TIMEOUT\<close> (60000 ms) after \<open>lastUpdated\<close>, or \<open>isRefresh\<close> holds and the
  reading of \<^verbatim>\<open>isForceReloadTimeout\<close> is more than \<open>FORCE_RELOAD_TIMEOUT\<close> (5000 ms)
  after \<open>lastUpdated\<close>. In every other case it returns the cached data, issues no
  request, and changes only \<open>lastUsed\<close>. When the awaited load is fulfilled, the call
  stores the result, sets \<open>lastUpdated\<close> to the clock reading and returns the result;
  for a call running alone the whole of it is the last equation.
\<close>

theorem ttl_get_refreshes_iff_absent_or_stale:
  fixes res :: 'v and c c' :: "'v cache_object"
  shows "RELOAD_TIMEOUT = 60000 \<and> FORCE_RELOAD_TIMEOUT = 5000 \<and>
    (CacheObject_get load isRefresh t_force t_reload t_used p c :: ('e, 'v) step \<times> _) =
     (if data c = None \<or> t_reload - lastUpdated c > RELOAD_TIMEOUT
         \<or> (isRefresh \<and> t_force - lastUpdated c > FORCE_RELOAD_TIMEOUT)
      then (Await p, load p c)
      else (Return (data c), None, c\<lparr>lastUsed := t_used\<rparr>)) \<and>
    (CacheObject_get_resume (Inr res) t_updated t_used c' :: ('e, 'v) step \<times> _) =
      (Return (Some res), c'\<lparr>data := Some res, lastUpdated := t_updated, lastUsed := t_used\<rparr>) \<and>
    CacheObject_get_alone (load_with req) isRefresh t_force t_reload t_updated t_used p
        (Inr res :: 'e + 'v) c =
      Some (if data c = None \<or> t_reload - lastUpdated c > RELOAD_TIMEOUT
               \<or> (isRefresh \<and> t_force - lastUpdated c > FORCE_RELOAD_TIMEOUT)
            then (Return (Some res), (if isLoading (broadcastPromise c) then None else Some req),
                  c\<lparr>data := Some res, lastUpdated := t_updated, lastUsed := t_used,
                    broadcastPromise := BroadcastPromise\<rparr>)
            else (Return (data c), None, c\<lparr>lastUsed := t_used\<rparr>))"
  by (simp add: CacheObject_get_eq CacheObject_get_alone_eq CacheObject_get_resume_def Let_def
      RELOAD_TIMEOUT_def FORCE_RELOAD_TIMEOUT_def)

text \<open>
  The scenarios of the thresholds, the clock at 1000000 for every reading: data
  fetched 1000 ms ago is returned with no request; data fetched 61000 ms ago is
  fetched again and \<open>lastUpdated\<close> becomes the reading; data fetched exactly 60000 ms
  ago is still returned; with \<open>isRefresh\<close>, data fetched 5001 ms ago is fetched again
  and data fetched exactly 5000 ms ago is returned.
\<close>

lemma ttl_get_threshold_scenarios:
  "CacheObject_get_alone (load_with NETWORK_getUser) False 1000000 1000000 1000000 1000000 1
       (Inr 8 :: string + nat)
       \<lparr>lastUpdated = 999000, data = Some 7, broadcastPromise = BroadcastPromise, lastUsed = 0\<rparr>
     = Some (Return (Some 7), None,
         \<lparr>lastUpdated = 999000, data = Some 7, broadcastPromise = BroadcastPromise,
          lastUsed = 1000000\<rparr>)"
  "CacheObject_get_alone (load_with NETWORK_getUser) False 1000000 1000000 1000000 1000000 1
       (Inr 8 :: string + nat)
       \<lparr>lastUpdated = 939000, data = Some 7, broadcastPromise = BroadcastPromise, lastUsed = 0\<rparr>
     = Some (Return (Some 8), Some NETWORK_getUser,
         \<lparr>lastUpdated = 1000000, data = Some 8, broadcastPromise = BroadcastPromise,
          lastUsed = 1000000\<rparr>)"
  "CacheObject_get_alone (load_with NETWORK_getUser) False 1000000 1000000 1000000 1000000 1
       (Inr 8 :: string + nat)
       \<lparr>lastUpdated = 940000, data = Some 7, broadcastPromise = BroadcastPromise, lastUsed = 0\<rparr>
     = Some (Return (Some 7), None,
         \<lparr>lastUpdated = 940000, data = Some 7, broadcastPromise = BroadcastPromise,
          lastUsed = 1000000\<rparr>)"
  "CacheObject_get_alone (load_with NETWORK_getUser) True 1000000 1000000 1000000 1000000 1
       (Inr 8 :: string + nat)
       \<lparr>lastUpdated = 994999, data = Some 7, broadcastPromise = BroadcastPromise, lastUsed = 0\<rparr>
     = Some (Return (Some 8), Some NETWORK_getUser,
         \<lparr>lastUpdated = 1000000, data = Some 8, broadcastPromise = BroadcastPromise,
          lastUsed = 1000000\<rparr>)"
  "CacheObject_get_alone (load_with NETWORK_getUser) True 1000000 1000000 1000000 1000000 1
       (Inr 8 :: string + nat)
       \<lparr>lastUpdated = 995000, data = Some 7, broadcastPromise = BroadcastPromise, lastUsed = 0\<rparr>
     = Some (Return (Some 7), None,
         \<lparr>lastUpdated = 995000, data = Some 7, broadcastPromise = BroadcastPromise,
          lastUsed = 1000000\<rparr>)"
  by (simp_all add: CacheObject_get_alone_eq BroadcastPromise_def)

text \<open>
  Claim C5 says that a call of \<^verbatim>\<open>get\<close> whose load fails returns the stale cached
  data. It does not: the entry below holds the data 7, fetched at time 0; a call at
  time 100000 needs a refresh, the load is rejected with \<open>''down''\<close>, and the call
  throws \<open>''down''\<close> instead of returning 7.
\<close>

theorem stale_value_is_not_served_when_load_fails:
  "CacheObject_get_alone (load_with NETWORK_getUser) False 100000 100000 100000 100000 1
       (Inl ''down'' :: string + nat)
       \<lparr>lastUpdated = 0, data = Some 7, broadcastPromise = BroadcastPromise, lastUsed = 0\<rparr>
     = Some (Throw ''down'', Some NETWORK_getUser,
         \<lparr>lastUpdated = 0, data = Some 7, broadcastPromise = BroadcastPromise, lastUsed = 0\<rparr>) \<and>
   map_option fst
     (CacheObject_get_alone (load_with NETWORK_getUser) False 100000 100000 100000 100000 1
       (Inl ''down'' :: string + nat)
       \<lparr>lastUpdated = 0, data = Some 7, broadcastPromise = BroadcastPromise, lastUsed = 0\<rparr>)
     \<noteq> Some (Return (Some 7))"
  by (simp add: CacheObject_get_alone_eq BroadcastPromise_def)

text \<open>
  Claim C5, amended. When a call of \<^verbatim>\<open>get\<close> needs a refresh and the load in flight
  is rejected, the call throws the error of the load, whether or not the entry holds
  cached data; the data, \<open>lastUpdated\<close> and \<open>lastUsed\<close> stay as they were. A call that
  needs no refresh returns the cached data.
\<close>

theorem failed_load_fails_the_call:
  fixes c :: "'v cache_object" and err :: 'e
  shows "CacheObject_get_alone (load_with req) isRefresh t_force t_reload t_updated t_used p
        (Inl err :: 'e + 'v) c =
      Some (if data c = None \<or> isReloadTimeout t_reload (lastUpdated c)
               \<or> (isRefresh \<and> isForceReloadTimeout t_force (lastUpdated c))
            then (Throw err, (if isLoading (broadcastPromise c) then None else Some req),
                  c\<lparr>broadcastPromise := BroadcastPromise\<rparr>)
            else (Return (data c), None, c\<lparr>lastUsed := t_used\<rparr>))"
  by (simp add: CacheObject_get_alone_eq isReloadTimeout_def isForceReloadTimeout_def
      RELOAD_TIMEOUT_def FORCE_RELOAD_TIMEOUT_def)

lemma concurrent_gets_frame:
  fixes c :: "'v cache_object"
  assumes "(concurrent_gets (load_with req) calls c
      :: (nat \<times> ('e, 'v) step) list \<times> request list \<times> 'v cache_object) = (first, started, c')"
  shows "data c' = data c \<and> lastUpdated c' = lastUpdated c \<and>
    rejectors (broadcastPromise c') = rejectors (broadcastPromise c) @ awaiting first \<and>
    resolvers (broadcastPromise c') = resolvers (broadcastPromise c) @ awaiting first"
  using assms
proof (induction calls arbitrary: c first started c')
  case Nil
  then show ?case by (simp add: awaiting_def)
next
  case (Cons call calls)
  obtain isRefresh t_force t_reload t_used p where call:
    "call = (isRefresh, t_force, t_reload, t_used, p)"
    by (cases call)
  obtain s req1 c1 where one:
    "(CacheObject_get (load_with req) isRefresh t_force t_reload t_used p c
       :: ('e, 'v) step \<times> request option \<times> 'v cache_object) = (s, req1, c1)"
    by (cases "CacheObject_get (load_with req) isRefresh t_force t_reload t_used p c
       :: ('e, 'v) step \<times> request option \<times> 'v cache_object")
  obtain ss reqs c2 where rest:
    "(concurrent_gets (load_with req) calls c1
       :: (nat \<times> ('e, 'v) step) list \<times> request list \<times> 'v cache_object) = (ss, reqs, c2)"
    by (cases "concurrent_gets (load_with req) calls c1
       :: (nat \<times> ('e, 'v) step) list \<times> request list \<times> 'v cache_object")
  from Cons.prems call one rest have first: "first = (p, s) # ss" and c': "c' = c2"
    by simp_all
  from one have step:
    "data c1 = data c \<and> lastUpdated c1 = lastUpdated c \<and>
     rejectors (broadcastPromise c1) = rejectors (broadcastPromise c) @ awaiting [(p, s)] \<and>
     resolvers (broadcastPromise c1) = resolvers (broadcastPromise c) @ awaiting [(p, s)]"
    by (auto simp add: CacheObject_get_eq load_with_eq awaiting_def split: if_splits)
  from Cons.IH [OF rest] step first c' show ?case
    by (simp add: awaiting_def)
qed

lemma resume_gets_rejected:
  "resume_gets (map (\<lambda>p. (p, Inl err)) ps) clock c = (map (\<lambda>p. (p, Throw err)) ps, c)"
  by (induction ps) (simp_all add: CacheObject_get_resume_def)

text \<open>
  Claim C6. Any number of calls of \<^verbatim>\<open>get\<close> are made on an entry before the load
  in flight settles, and the load is rejected with \<open>err\<close>. Then every waiter of the
  coalescer, those already waiting and every call that awaited the load, throws
  \<open>err\<close>; and the entry's data and \<open>lastUpdated\<close> are what they were before the
  calls. The coalescer is back in its initial state.
\<close>

theorem failed_load_reaches_every_waiter_and_keeps_fields:
  fixes c :: "'v cache_object" and err :: 'e
  assumes "gets_then_settle (load_with req) calls (Inl err) clock c = (first, started, second, c')"
  shows "second = map (\<lambda>p. (p, Throw err)) (rejectors (broadcastPromise c) @ awaiting first) \<and>
    data c' = data c \<and> lastUpdated c' = lastUpdated c \<and>
    broadcastPromise c' = BroadcastPromise"
proof -
  obtain c1 where gets:
    "(concurrent_gets (load_with req) calls c
       :: (nat \<times> ('e, 'v) step) list \<times> request list \<times> 'v cache_object) = (first, started, c1)"
    using assms
    by (auto simp add: gets_then_settle_def Let_def split: prod.splits)
  note frame = concurrent_gets_frame [OF gets]
  from assms gets frame show ?thesis
    by (auto simp add: gets_then_settle_def settle_eq resume_gets_rejected BroadcastPromise_def)
qed

text \<open>
  Claim C6 at an instance. Two calls on an entry holding stale data, the load rejected: both throw the error,
  the data and \<open>lastUpdated\<close> are unchanged.
\<close>

theorem failed_load_two_waiters:
  "fst (snd (snd (gets_then_settle (load_with NETWORK_getUser)
       [(False, 100000, 100000, 100000, 1), (True, 100001, 100001, 100001, 2)]
       (Inl ''down'' :: string + nat) (\<lambda>p. (100002, 100002))
       \<lparr>lastUpdated = 0, data = Some 7, broadcastPromise = BroadcastPromise, lastUsed = 0\<rparr>)))
     = [(1, Throw ''down''), (2, Throw ''down'')] \<and>
   data (snd (snd (snd (gets_then_settle (load_with NETWORK_getUser)
       [(False, 100000, 100000, 100000, 1), (True, 100001, 100001, 100001, 2)]
       (Inl ''down'' :: string + nat) (\<lambda>p. (100002, 100002))
       \<lparr>lastUpdated = 0, data = Some 7, broadcastPromise = BroadcastPromise, lastUsed = 0\<rparr>))))
     = Some 7 \<and>
   lastUpdated (snd (snd (snd (gets_then_settle (load_with NETWORK_getUser)
       [(False, 100000, 100000, 100000, 1), (True, 100001, 100001, 100001, 2)]
       (Inl ''down'' :: string + nat) (\<lambda>p. (100002, 100002))
       \<lparr>lastUpdated = 0, data = Some 7, broadcastPromise = BroadcastPromise, lastUsed = 0\<rparr>))))
     = 0"
proof -
  let ?c = "\<lparr>lastUpdated = 0, data = Some (7::nat), broadcastPromise = BroadcastPromise,
    lastUsed = 0\<rparr>"
  let ?calls = "[(False, 100000, 100000, 100000, 1), (True, 100001, 100001, 100001, 2)]
    :: (bool \<times> int \<times> int \<times> int \<times> nat) list"
  obtain first started second c' where run:
    "gets_then_settle (load_with NETWORK_getUser) ?calls (Inl ''down'' :: string + nat)
       (\<lambda>p. (100002, 100002)) ?c = (first, started, second, c')"
    by (metis prod_cases4)
  have first: "first = [(1, Await 1), (2, Await 2)]"
    using run
    by (simp add: gets_then_settle_def CacheObject_get_eq load_with_eq settle_eq
        BroadcastPromise_def CacheObject_get_resume_def)
  have aw: "awaiting [(1, Await 1 :: (string, nat) step), (2, Await 2)] = [1, 2]"
    by (simp add: awaiting_def)
  note fact = failed_load_reaches_every_waiter_and_keeps_fields [OF run]
  have "second = [(1, Throw ''down''), (2, Throw ''down'')]"
    using fact [THEN conjunct1] first aw by (simp add: BroadcastPromise_def)
  moreover have "data c' = Some 7" and "lastUpdated c' = 0"
    using fact [THEN conjunct2] by simp_all
  ultimately show ?thesis
    by (simp only: run fst_conv snd_conv)
qed

lemma concurrent_gets_without_data:
  fixes c :: "'v cache_object"
  assumes "data c = None"
  shows "(concurrent_gets (load_with req) calls c
      :: (nat \<times> ('e, 'v) step) list \<times> request list \<times> 'v cache_object) =
    (map (\<lambda>k. (promise_of k, Await (promise_of k))) calls,
     (if isLoading (broadcastPromise c) then [] else take 1 (map (\<lambda>k. req) calls)),
     c\<lparr>broadcastPromise :=
        \<lparr>isLoading = (isLoading (broadcastPromise c) \<or> calls \<noteq> []),
         resolvers = resolvers (broadcastPromise c) @ map promise_of calls,
         rejectors = rejectors (broadcastPromise c) @ map promise_of calls\<rparr>\<rparr>)"
  using assms
proof (induction calls arbitrary: c)
  case Nil
  then show ?case by simp
next
  case (Cons k calls)
  obtain isRefresh t_force t_reload t_used p where k: "k = (isRefresh, t_force, t_reload, t_used, p)"
    by (cases k)
  let ?c1 = "c\<lparr>broadcastPromise :=
          \<lparr>isLoading = True,
           resolvers = resolvers (broadcastPromise c) @ [p],
           rejectors = rejectors (broadcastPromise c) @ [p]\<rparr>\<rparr>"
  have one: "(CacheObject_get (load_with req) isRefresh t_force t_reload t_used p c
       :: ('e, 'v) step \<times> request option \<times> 'v cache_object) =
     (Await p, (if isLoading (broadcastPromise c) then None else Some req), ?c1)"
    using Cons.prems by (simp add: CacheObject_get_eq load_with_eq)
  have c1: "data ?c1 = None"
    using Cons.prems by simp
  show ?case
    by (simp add: k one Cons.IH [OF c1] promise_of_def)
qed

lemma resume_gets_fulfilled:
  "resume_gets (map (\<lambda>x. (f x, Inr res)) xs) clock c =
     (map (\<lambda>x. (f x, Return (Some res))) xs,
      (if xs = [] then c
       else c\<lparr>data := Some res, lastUpdated := fst (clock (f (last xs))),
              lastUsed := snd (clock (f (last xs)))\<rparr>))"
  by (induction xs arbitrary: c) (simp_all add: CacheObject_get_resume_def)

text \<open>
  The coalescing seen from the entry: any number of calls of \<^verbatim>\<open>get\<close>, at least
  one, on an entry with no data and no load in flight issue one request, and when it
  is fulfilled every call returns its result.
\<close>

lemma concurrent_gets_on_empty_entry_share_one_fetch:
  fixes c :: "'v cache_object" and res :: 'v
  assumes "data c = None" and "broadcastPromise c = BroadcastPromise" and "calls \<noteq> []"
  shows "gets_then_settle (load_with req) calls (Inr res :: 'e + 'v) clock c =
    (map (\<lambda>k. (promise_of k, Await (promise_of k))) calls,
     [req],
     map (\<lambda>k. (promise_of k, Return (Some res))) calls,
     c\<lparr>data := Some res,
       lastUpdated := fst (clock (promise_of (last calls))),
       lastUsed := snd (clock (promise_of (last calls)))\<rparr>)"
proof -
  obtain k ks where calls: "calls = k # ks"
    using assms(3) by (cases calls) auto
  have gets: "(concurrent_gets (load_with req) calls c
      :: (nat \<times> ('e, 'v) step) list \<times> request list \<times> 'v cache_object) =
    (map (\<lambda>k. (promise_of k, Await (promise_of k))) calls, [req],
     c\<lparr>broadcastPromise :=
        \<lparr>isLoading = True, resolvers = map promise_of calls,
         rejectors = map promise_of calls\<rparr>\<rparr>)"
    using assms by (simp add: concurrent_gets_without_data BroadcastPromise_def calls)
  have settled: "BroadcastPromise_settle (Inr res :: 'e + 'v)
      \<lparr>isLoading = True, resolvers = map promise_of calls, rejectors = map promise_of calls\<rparr> =
    (map (\<lambda>k. (promise_of k, Inr res)) calls, BroadcastPromise)"
    by (simp add: settle_eq BroadcastPromise_def comp_def)
  have idle: "c\<lparr>broadcastPromise := BroadcastPromise\<rparr> = c"
    using assms(2) by (cases c) simp
  show ?thesis
    using assms(3)
    by (simp add: gets_then_settle_def gets settled resume_gets_fulfilled idle)
qed



subsection \<open>The list entries\<close>

lemma fold_push_filter:
  "fold (\<lambda>x acc. if P x then acc @ [x] else acc) xs ys = ys @ filter P xs"
  by (induction xs arbitrary: ys) simp_all

text \<open>
  Claim C7. The segment of \<^verbatim>\<open>deleteRuns\<close> that ends by issuing the deletion request
  has, when a collection is cached, already replaced its runs by the runs whose uuid
  is not among the given ones, in their order; with no cached collection it leaves the
  entry as it is. When the request fails, the call throws the error and the entry stays
  as the first segment left it. \<^verbatim>\<open>deleteSessions\<close> does the same with the sessions.
\<close>

theorem delete_edits_cached_collection_before_request_and_keeps_edit:
  fixes c :: "'a RunListItem_scheme RunsList cache_object"
    and s :: "'b SessionListItem_scheme SessionsList cache_object"
    and err :: 'e
  shows "RunsListCache_deleteRuns runUUIDS c =
      (NETWORK_deleteRuns runUUIDS,
       (case data c of
          None \<Rightarrow> c
        | Some d \<Rightarrow>
            c\<lparr>data := Some (d\<lparr>RunsList_runs :=
                filter (\<lambda>run. run_uuid run \<notin> set runUUIDS) (RunsList_runs d)\<rparr>)\<rparr>)) \<and>
    (RunsListCache_deleteRuns_resume (Inl err :: 'e + 'w) (snd (RunsListCache_deleteRuns runUUIDS c))
      = (Throw err, snd (RunsListCache_deleteRuns runUUIDS c))) \<and>
    SessionsListCache_deleteSessions sessionUUIDS s =
      (NETWORK_deleteSessions sessionUUIDS,
       (case data s of
          None \<Rightarrow> s
        | Some d \<Rightarrow>
            s\<lparr>data := Some (d\<lparr>SessionsList_sessions :=
                filter (\<lambda>session. session_uuid session \<notin> set sessionUUIDS)
                  (SessionsList_sessions d)\<rparr>)\<rparr>)) \<and>
    (SessionsListCache_deleteSessions_resume (Inl err :: 'e + 'w)
        (snd (SessionsListCache_deleteSessions sessionUUIDS s))
      = (Throw err, snd (SessionsListCache_deleteSessions sessionUUIDS s)))"
  by (simp add: RunsListCache_deleteRuns_def RunsListCache_deleteRuns_resume_def
      SessionsListCache_deleteSessions_def SessionsListCache_deleteSessions_resume_def
      fold_push_filter Let_def split: option.splits)

text \<open>The cached runs a, b, c without b are a, c.\<close>

lemma delete_b_of_abc:
  "snd (RunsListCache_deleteRuns [''b'']
     \<lparr>lastUpdated = 5, data = Some \<lparr>RunsList_runs =
         [\<lparr>run_uuid = ''a''\<rparr>, \<lparr>run_uuid = ''b''\<rparr>, \<lparr>run_uuid = ''c''\<rparr>]\<rparr>,
       broadcastPromise = BroadcastPromise, lastUsed = 5\<rparr>)
   = \<lparr>lastUpdated = 5, data = Some \<lparr>RunsList_runs = [\<lparr>run_uuid = ''a''\<rparr>, \<lparr>run_uuid = ''c''\<rparr>]\<rparr>,
       broadcastPromise = BroadcastPromise, lastUsed = 5\<rparr>"
  by (simp add: RunsListCache_deleteRuns_def Let_def)

text \<open>
  Claim C9 says that \<^verbatim>\<open>RunsListCache.get\<close> with a truthy filter always performs a
  fetch scoped to the filter and returns its result. The run below shows what the code
  does when a load is in flight. A first call without a filter on a new entry issues
  \<^verbatim>\<open>getRuns(null)\<close>. A second call with the filter \<open>''folder''\<close> reaches
  \<^verbatim>\<open>create\<close> while that load runs: no request is issued for it, and it waits as
  promise 2. The answer to \<^verbatim>\<open>getRuns(null)\<close> settles both promises, and the second
  call returns it: the unfiltered runs, for a call that asked for a folder.
\<close>

theorem filtered_get_during_unfiltered_load_gets_unfiltered_answer:
  "(RunsListCache_get False [] 10 10 1 (CacheObject :: string cache_object)
      :: (string, string) step \<times> _) =
     (Await 1, Some (NETWORK_getRuns None),
      \<lparr>lastUpdated = 0, data = None,
       broadcastPromise = \<lparr>isLoading = True, resolvers = [1], rejectors = [1]\<rparr>,
       lastUsed = 0\<rparr>) \<and>
   (RunsListCache_get False [Some ''folder''] 11 11 2
       \<lparr>lastUpdated = 0, data = None,
        broadcastPromise = \<lparr>isLoading = True, resolvers = [1], rejectors = [1]\<rparr>,
        lastUsed = 0\<rparr>
      :: (string, string) step \<times> _) =
     (Await 2, None,
      \<lparr>lastUpdated = 0, data = None,
       broadcastPromise = \<lparr>isLoading = True, resolvers = [1, 2], rejectors = [1, 2]\<rparr>,
       lastUsed = 0\<rparr>) \<and>
   BroadcastPromise_settle (Inr ''all runs'' :: string + string)
       \<lparr>isLoading = True, resolvers = [1, 2], rejectors = [1, 2]\<rparr> =
     ([(1, Inr ''all runs''), (2, Inr ''all runs'')],
      \<lparr>isLoading = False, resolvers = [], rejectors = []\<rparr>) \<and>
   (RunsListCache_get_resume [Some ''folder''] (Inr ''all runs'' :: string + string) 20
       \<lparr>lastUpdated = 0, data = None,
        broadcastPromise = \<lparr>isLoading = False, resolvers = [], rejectors = []\<rparr>,
        lastUsed = 0\<rparr>) =
     (Return (Some ''all runs''),
      \<lparr>lastUpdated = 0, data = None,
       broadcastPromise = \<lparr>isLoading = False, resolvers = [], rejectors = []\<rparr>,
       lastUsed = 0\<rparr>)"
  by (simp add: RunsListCache_get_def RunsListCache_get_resume_def RunsListCache_load_def
      load_with_eq settle_eq arg0_def truthy_def CacheObject_def BroadcastPromise_def)

text \<open>
  The other way round: a call without a filter made while the load of a filtered call
  is in flight issues no request, gets the filtered answer and stores it as the
  entry's data.
\<close>

lemma unfiltered_get_during_filtered_load_caches_filtered_answer:
  "(RunsListCache_get False [Some ''folder''] 10 10 1 (CacheObject :: string cache_object)
      :: (string, string) step \<times> _) =
     (Await 1, Some (NETWORK_getRuns (Some ''folder'')),
      \<lparr>lastUpdated = 0, data = None,
       broadcastPromise = \<lparr>isLoading = True, resolvers = [1], rejectors = [1]\<rparr>,
       lastUsed = 0\<rparr>) \<and>
   (RunsListCache_get False [] 11 11 2
       \<lparr>lastUpdated = 0, data = None,
        broadcastPromise = \<lparr>isLoading = True, resolvers = [1], rejectors = [1]\<rparr>,
        lastUsed = 0\<rparr>
      :: (string, string) step \<times> _) =
     (Await 2, None,
      \<lparr>lastUpdated = 0, data = None,
       broadcastPromise = \<lparr>isLoading = True, resolvers = [1, 2], rejectors = [1, 2]\<rparr>,
       lastUsed = 0\<rparr>) \<and>
   BroadcastPromise_settle (Inr ''runs of folder'' :: string + string)
       \<lparr>isLoading = True, resolvers = [1, 2], rejectors = [1, 2]\<rparr> =
     ([(1, Inr ''runs of folder''), (2, Inr ''runs of folder'')],
      \<lparr>isLoading = False, resolvers = [], rejectors = []\<rparr>) \<and>
   (RunsListCache_get_resume [] (Inr ''runs of folder'' :: string + string) 20
       \<lparr>lastUpdated = 0, data = None,
        broadcastPromise = \<lparr>isLoading = False, resolvers = [], rejectors = []\<rparr>,
        lastUsed = 0\<rparr>) =
     (Return (Some ''runs of folder''),
      \<lparr>lastUpdated = 20, data = Some ''runs of folder'',
       broadcastPromise = \<lparr>isLoading = False, resolvers = [], rejectors = []\<rparr>,
       lastUsed = 0\<rparr>)"
  by (simp add: RunsListCache_get_def RunsListCache_get_resume_def RunsListCache_load_def
      load_with_eq settle_eq arg0_def truthy_def CacheObject_def BroadcastPromise_def)

text \<open>
  With no load in flight, a call with a truthy filter issues the request scoped to the
  filter and returns its answer, and the entry's data and \<open>lastUpdated\<close> stay as they
  were.
\<close>

lemma filtered_get_on_idle_entry:
  fixes c :: "'v cache_object"
  assumes "truthy (arg0 args)" and "\<not> isLoading (broadcastPromise c)"
  shows "fst (snd (RunsListCache_get isRefresh args t_force t_reload p c
            :: ('e, 'v) step \<times> _)) = Some (NETWORK_getRuns (arg0 args)) \<and>
    data (snd (snd (RunsListCache_get isRefresh args t_force t_reload p c
            :: ('e, 'v) step \<times> _))) = data c \<and>
    lastUpdated (snd (snd (RunsListCache_get isRefresh args t_force t_reload p c
            :: ('e, 'v) step \<times> _))) = lastUpdated c \<and>
    (RunsListCache_get_resume args (Inr res :: 'e + 'v) t_updated c') = (Return (Some res), c')"
  using assms
  by (simp add: RunsListCache_get_def RunsListCache_get_resume_def RunsListCache_load_def
      load_with_eq arg0_def)

subsection \<open>The entries coupled to a status\<close>

text \<open>
  After a load the third segment awaits \<^verbatim>\<open>statusCache.get(true)\<close> exactly when
  \<open>isRefresh\<close> holds, or the status is running and the clock reading of
  \<^verbatim>\<open>isReloadTimeout\<close> is more than 60000 ms after the reading just stored in
  \<open>lastUpdated\<close>.
\<close>

lemma cascade_only_on_refresh_or_clock_jump:
  "(fst (RunCache_get_loaded isRefresh status (Inr res) t_updated t_reload c) = AwaitStatus True)
     = (isRefresh \<or> (isRunning status \<and> t_reload - t_updated > 60000))"
  by (auto simp add: RunCache_get_loaded_def isReloadTimeout_def RELOAD_TIMEOUT_def Let_def)

text \<open>
  Claim C3 says that a \<^verbatim>\<open>get()\<close> on a \<^verbatim>\<open>RunCache\<close> or an
  \<^verbatim>\<open>AnalysisDataCache\<close> whose status is running and whose \<open>lastUpdated\<close> is older
  than \<open>RELOAD_TIMEOUT\<close> refreshes the body and then calls
  \<^verbatim>\<open>statusCache.get(true)\<close>. The run below shows what the code does: the status is
  running, \<open>lastUpdated\<close> is 0 and the clock reads 100000, so the second segment
  loads the body; the load is fulfilled at 100050, the third segment stores the
  result and that reading, compares the clock with the reading just stored, and
  returns: \<^verbatim>\<open>statusCache.get(true)\<close> is not called.
\<close>

theorem running_and_stale_refresh_does_not_cascade:
  "(RunCache_get False
       \<lparr>lastUpdated = 0, data = Some ''old'', broadcastPromise = BroadcastPromise, lastUsed = 0\<rparr>
      :: (string, string) step \<times> _) =
     (AwaitStatus False,
      \<lparr>lastUpdated = 0, data = Some ''old'', broadcastPromise = BroadcastPromise, lastUsed = 0\<rparr>) \<and>
   (RunCache_get_status ''u'' False (Inr \<lparr>isRunning = True\<rparr> :: string + Status) 100000 100000 1
       \<lparr>lastUpdated = 0, data = Some ''old'', broadcastPromise = BroadcastPromise, lastUsed = 0\<rparr>
      :: (string, string) step \<times> _) =
     (Await 1, Some (NETWORK_getRun ''u''),
      \<lparr>lastUpdated = 0, data = Some ''old'',
       broadcastPromise = \<lparr>isLoading = True, resolvers = [1], rejectors = [1]\<rparr>,
       lastUsed = 0\<rparr>) \<and>
   RunCache_get_loaded False \<lparr>isRunning = True\<rparr> (Inr ''new'' :: string + string) 100050 100050
       \<lparr>lastUpdated = 0, data = Some ''old'', broadcastPromise = BroadcastPromise, lastUsed = 0\<rparr> =
     (Return (Some ''new''),
      \<lparr>lastUpdated = 100050, data = Some ''new'', broadcastPromise = BroadcastPromise,
       lastUsed = 0\<rparr>) \<and>
   (AnalysisDataCache_get_status ''u'' ''metrics'' False (Inr \<lparr>isRunning = True\<rparr> :: string + Status)
       100000 100000 1
       \<lparr>lastUpdated = 0, data = Some ''old'', broadcastPromise = BroadcastPromise, lastUsed = 0\<rparr>
      :: (string, string) step \<times> _) =
     (Await 1, Some (NETWORK_getAnalysis ''metrics'' ''u''),
      \<lparr>lastUpdated = 0, data = Some ''old'',
       broadcastPromise = \<lparr>isLoading = True, resolvers = [1], rejectors = [1]\<rparr>,
       lastUsed = 0\<rparr>) \<and>
   AnalysisDataCache_get_loaded False \<lparr>isRunning = True\<rparr> (Inr ''new'' :: string + string)
       100050 100050
       \<lparr>lastUpdated = 0, data = Some ''old'', broadcastPromise = BroadcastPromise, lastUsed = 0\<rparr> =
     (Return (Some ''new''),
      \<lparr>lastUpdated = 100050, data = Some ''new'', broadcastPromise = BroadcastPromise,
       lastUsed = 0\<rparr>)"
  by (simp add: RunCache_get_def RunCache_get_status_def RunCache_get_loaded_def RunCache_load_def
      AnalysisDataCache_get_status_def AnalysisDataCache_get_loaded_def AnalysisDataCache_load_def
      load_with_eq isReloadTimeout_def isForceReloadTimeout_def RELOAD_TIMEOUT_def
      FORCE_RELOAD_TIMEOUT_def BroadcastPromise_def)

subsection \<open>The registry\<close>







text \<open>
  Claim C10. A \<^verbatim>\<open>get\<close> through a reference to a \<^verbatim>\<open>SessionCache\<close> runs the method
  of \<^verbatim>\<open>CacheObject\<close>: it loads exactly when the data is absent, or soft-stale, or
  force-stale with \<open>isRefresh\<close>, whatever any status entry holds; it reads and writes
  no object of the store but its own; it never ends awaiting a status call, neither
  before nor after the load. \<^verbatim>\<open>getSession\<close> does not touch the dictionaries of the
  status entries and creates no status object.
\<close>

theorem session_get_is_base_policy_and_touches_no_status:
  fixes h :: "'v store"
  assumes "a < length h" and "h ! a = (SessionCache uuid, c)"
  shows "(call_get a isRefresh args t_force t_reload t_used p h :: ('e, 'v) step \<times> _) =
      (if data c = None \<or> isReloadTimeout t_reload (lastUpdated c)
          \<or> (isRefresh \<and> isForceReloadTimeout t_force (lastUpdated c))
       then (Await p, (if isLoading (broadcastPromise c) then None else Some (NETWORK_getSession uuid)),
             h[a := (SessionCache uuid, snd (SessionCache_load uuid p c))])
       else (Return (data c), None, h[a := (SessionCache uuid, c\<lparr>lastUsed := t_used\<rparr>)])) \<and>
    fst (call_get a isRefresh args t_force t_reload t_used p h :: ('e, 'v) step \<times> _)
      \<noteq> AwaitStatus b \<and>
    call_get_resume a args (Inr res :: 'e + 'v) t_updated t_used h =
      Some (Return (Some res),
        h[a := (SessionCache uuid,
                c\<lparr>data := Some res, lastUpdated := t_updated, lastUsed := t_used\<rparr>)]) \<and>
    sessionStatuses (fst (snd (Cache_getSession uuid' (C, h)))) = sessionStatuses C \<and>
    runStatuses (fst (snd (Cache_getSession uuid' (C, h)))) = runStatuses C \<and>
    snd (snd (Cache_getSession uuid' (C, h))) =
      (case get_property (sessions C) uuid' of
         None \<Rightarrow> h @ [(SessionCache uuid', CacheObject)]
       | Some b \<Rightarrow> h)"
proof -
  have enter: "(call_get a isRefresh args t_force t_reload t_used p h :: ('e, 'v) step \<times> _) =
      (if data c = None \<or> isReloadTimeout t_reload (lastUpdated c)
          \<or> (isRefresh \<and> isForceReloadTimeout t_force (lastUpdated c))
       then (Await p, (if isLoading (broadcastPromise c) then None else Some (NETWORK_getSession uuid)),
             h[a := (SessionCache uuid, snd (SessionCache_load uuid p c))])
       else (Return (data c), None, h[a := (SessionCache uuid, c\<lparr>lastUsed := t_used\<rparr>)]))"
    using assms(2)
    by (simp add: call_get_def SessionCache_get_def SessionCache_load_def CacheObject_get_eq
        load_with_eq isReloadTimeout_def isForceReloadTimeout_def RELOAD_TIMEOUT_def
        FORCE_RELOAD_TIMEOUT_def)
  have never: "fst (call_get a isRefresh args t_force t_reload t_used p h :: ('e, 'v) step \<times> _)
      \<noteq> AwaitStatus b"
    by (simp add: enter)
  have resume: "call_get_resume a args (Inr res :: 'e + 'v) t_updated t_used h =
      Some (Return (Some res),
        h[a := (SessionCache uuid,
                c\<lparr>data := Some res, lastUpdated := t_updated, lastUsed := t_used\<rparr>)])"
    using assms(2) by (simp add: call_get_resume_def CacheObject_get_resume_def)
  have registry: "sessionStatuses (fst (snd (Cache_getSession uuid' (C, h)))) = sessionStatuses C"
    "runStatuses (fst (snd (Cache_getSession uuid' (C, h)))) = runStatuses C"
    "snd (snd (Cache_getSession uuid' (C, h))) =
      (case get_property (sessions C) uuid' of
         None \<Rightarrow> h @ [(SessionCache uuid', CacheObject)]
       | Some b \<Rightarrow> h)"
    by (simp_all add: Cache_getSession_def new_object_def Let_def split: option.splits)
  from enter never resume registry show ?thesis
    by blast
qed

text \<open>
  Claim C10 at an instance. A session whose status entry says it is not running, and
  whose data is older than \<open>RELOAD_TIMEOUT\<close>: the \<^verbatim>\<open>get\<close> loads the session and
  leaves the status entry alone.
\<close>

theorem session_get_stale_session_loads_without_status:
  "(call_get 1 False [] 100000 100000 100000 5
      [(SessionStatusCache ''s'', \<lparr>lastUpdated = 99000, data = Some ''not running'',
          broadcastPromise = BroadcastPromise, lastUsed = 99000\<rparr>),
       (SessionCache ''s'', \<lparr>lastUpdated = 0, data = Some ''body'',
          broadcastPromise = BroadcastPromise, lastUsed = 0\<rparr>)]
      :: (string, string) step \<times> _) =
     (Await 5, Some (NETWORK_getSession ''s''),
      [(SessionStatusCache ''s'', \<lparr>lastUpdated = 99000, data = Some ''not running'',
          broadcastPromise = BroadcastPromise, lastUsed = 99000\<rparr>),
       (SessionCache ''s'', \<lparr>lastUpdated = 0, data = Some ''body'',
          broadcastPromise = \<lparr>isLoading = True, resolvers = [5], rejectors = [5]\<rparr>,
          lastUsed = 0\<rparr>)])"
proof -
  let ?h = "[(SessionStatusCache ''s'', \<lparr>lastUpdated = 99000, data = Some ''not running'',
          broadcastPromise = BroadcastPromise, lastUsed = 99000\<rparr>),
       (SessionCache ''s'', \<lparr>lastUpdated = 0, data = Some ''body'',
          broadcastPromise = BroadcastPromise, lastUsed = 0\<rparr>)]"
  have ref: "1 < length ?h"
    by simp
  have obj: "?h ! 1 = (SessionCache ''s'', \<lparr>lastUpdated = 0, data = Some ''body'',
          broadcastPromise = BroadcastPromise, lastUsed = 0\<rparr>)"
    by simp
  note fact = session_get_is_base_policy_and_touches_no_status
    [OF ref obj, where 'e = string, of False "[]" 100000 100000 100000 5]
  show ?thesis
    using fact [THEN conjunct1]
    by (simp add: isReloadTimeout_def RELOAD_TIMEOUT_def SessionCache_load_def load_with_eq
        BroadcastPromise_def)
qed

text \<open>A \<^verbatim>\<open>RunCache\<close> starts by awaiting its status entry instead.\<close>

lemma run_get_awaits_status_first:
  fixes h :: "'v store"
  assumes "h ! a = (RunCache uuid status_ref, c)"
  shows "(call_get a isRefresh args t_force t_reload t_used p h :: ('e, 'v) step \<times> _) =
    (AwaitStatus False, None, h[a := (RunCache uuid status_ref, c)])"
  using assms by (simp add: call_get_def RunCache_get_def)

end
